theory Spec2Isabelle
  imports Complex_Main "HOL-Library.Word" "HOL-Library.AList"
begin

section \<open>The Billboard scene node of the framebuffer example\<close>

text \<open>
  \<^verbatim>\<open>src/framebuffer/Billboard.cpp\<close> holds two functions, the constructor
  \<^verbatim>\<open>Billboard::Billboard\<close> and \<^verbatim>\<open>Billboard::draw\<close>. Both are sequences
  of calls into the host graphics engine. The embedding keeps the sequence: every call
  of the source is one step that appends itself, with its arguments, to a log of calls
  and updates the part of the state it acts on.
\<close>

subsection \<open>Values of the host language and of the engine\<close>

text \<open>
  \<^verbatim>\<open>GLsizei\<close> is a 32-bit signed integer, a word read by \<open>sint\<close>. A \<^verbatim>\<open>GLfloat\<close> is a finite number, an
  infinity or a NaN. Rounding to the nearest representable number is a parameter
  \<open>rnd\<close> of the model; zero carries no sign (the only zero divisor the code can produce
  is the conversion of the integer 0, which is +0).
\<close>

type_synonym glsizei = "32 word"

datatype glfloat = Finite real | PosInf | NegInf | NaN

fun is_finite :: "glfloat \<Rightarrow> bool" where
  "is_finite (Finite x) = True"
| "is_finite PosInf = False"
| "is_finite NegInf = False"
| "is_finite NaN = False"

text \<open>The conversion \<^verbatim>\<open>GLfloat(n)\<close> of an integer; its result is always finite.\<close>

definition GLfloat :: "(real \<Rightarrow> real) \<Rightarrow> glsizei \<Rightarrow> real" where
  "GLfloat rnd n = rnd (real_of_int (sint n))"

text \<open>The division of two finite floats, as IEEE 754 defines it.\<close>

definition glfloat_div :: "(real \<Rightarrow> real) \<Rightarrow> real \<Rightarrow> real \<Rightarrow> glfloat" where
  "glfloat_div rnd a b =
     (if b = 0 then (if a = 0 then NaN else if 0 < a then PosInf else NegInf)
      else Finite (rnd (a / b)))"

text \<open>A two-component vector, indexed by 0 and 1 as \<^verbatim>\<open>operator[]\<close> does.\<close>

type_synonym 'a vector2 = "'a \<times> 'a"

definition component :: "'a vector2 \<Rightarrow> nat \<Rightarrow> 'a" where
  "component v i = (if i = 0 then fst v else snd v)"

text \<open>
  Host engine: \<^verbatim>\<open>Vector2::yScale(s)\<close> is the scaling vector whose first component
  is 1 and whose second component is \<open>s\<close>.
\<close>

definition yScale :: "glfloat \<Rightarrow> glfloat vector2" where
  "yScale s = (Finite 1, s)"

text \<open>
  Matrices of the engine are kept symbolic: a given matrix, the identity, a scaling and
  the product \<^verbatim>\<open>a*b\<close>.
\<close>

datatype matrix3 =
    Matrix3 "glfloat list"
  | Matrix3_identity
  | Matrix3_scaling "glfloat vector2"
  | Matrix3_mul matrix3 matrix3

text \<open>The enumerators the source names, with their siblings in the engine.\<close>

datatype primitive = Points | Lines | LineStrip | LineLoop | Triangles | TriangleStrip | TriangleFan
datatype buffer_type = Interleaved | NonInterleaved
datatype usage = StreamDraw | StaticDraw | DynamicDraw
datatype wrapping = Repeat | MirroredRepeat | ClampToEdge | ClampToBorder
datatype filter_mode = NearestNeighbor | LinearInterpolation
datatype format = RGB | RGBA
datatype components = Red | RedGreen
datatype component_type = UnsignedByte | Float
datatype layer = TextureLayer | ColorCorrectionTextureLayer
datatype attribute = Position

text \<open>
  Pointers are handles. A \<^verbatim>\<open>Buffer*\<close> is an index into the store of buffer objects
  of the context; the parent \<^verbatim>\<open>Object2D*\<close> is an opaque handle. The image and the
  camera are only read, so the model passes what they point to.
\<close>

type_synonym buffer_handle = nat
type_synonym object_handle = nat

datatype buffer_data = Square_data nat | Floats "glfloat list"

record image_data2d =
  image_size :: "glsizei vector2"
  image_pixels :: "nat list"

record camera2d =
  projectionMatrix :: matrix3

subsection \<open>The Billboard object and the context\<close>

record mesh =
  mesh_primitive :: primitive
  vertexCount :: nat
  mesh_buffers :: "(buffer_handle \<times> buffer_type) list"
  mesh_attributes :: "(attribute \<times> buffer_handle) list"

record texture2d =
  tex_wrapping :: "(wrapping \<times> wrapping) option"
  magnificationFilter :: "filter_mode option"
  minificationFilter :: "filter_mode option"
  tex_data :: "(nat \<times> format \<times> image_data2d) option"

record buffered_texture =
  tex_buffer :: "(components \<times> component_type \<times> buffer_handle) option"

text \<open>
  A Billboard is an \<^verbatim>\<open>Object2D\<close>, a scene-graph node with a parent and a
  transformation, extended by its members. The shader member holds no state of its own
  here: what \<^verbatim>\<open>use\<close> and \<^verbatim>\<open>setMatrixUniform\<close> change lives in the context.
\<close>

record object2d =
  parent :: object_handle
  transformation :: matrix3

record billboard = object2d +
  mesh :: mesh
  texture :: texture2d
  colorCorrectionTexture :: buffered_texture

text \<open>Every call the two functions make, with its arguments.\<close>

datatype call =
    Object2D_ctor object_handle
  | Mesh_ctor primitive nat
  | Square_ctor
  | Mesh_addBuffer buffer_type
  | Square_positions nat
  | Buffer_setData buffer_handle buffer_data usage
  | Mesh_bindAttribute attribute buffer_handle
  | Texture_setWrapping "wrapping \<times> wrapping"
  | Texture_setMagnificationFilter filter_mode
  | Texture_setMinificationFilter filter_mode
  | Texture_setData nat format image_data2d
  | BufferedTexture_setBuffer components component_type buffer_handle
  | ImageData2D_size image_data2d
  | Object2D_scale "glfloat vector2"
  | Shader_use
  | Camera2D_projectionMatrix camera2d
  | Shader_setMatrixUniform matrix3
  | Texture_bind layer
  | BufferedTexture_bind layer
  | Mesh_draw

text \<open>
  What a mesh draw call renders: the mesh it is called on, the textures bound to the
  layers of the shader and the store of buffer objects, as they are at the call.
\<close>

datatype bound_texture = Bound_Texture2D texture2d | Bound_BufferedTexture buffered_texture

record rendering =
  rendered_mesh :: mesh
  rendered_textures :: "(layer \<times> bound_texture) list"
  rendered_buffers :: "buffer_data option list"

text \<open>
  The context: the store of buffer objects (\<open>None\<close> is a buffer without data), the
  matrix uniform of the color-correction shader, the texture bound to each layer, what
  the mesh draw calls have rendered, and the log of calls, the last two oldest first.
\<close>

record gl_context =
  buffers :: "buffer_data option list"
  matrixUniform :: "matrix3 option"
  boundTextures :: "(layer \<times> bound_texture) list"
  rendered :: "rendering list"
  calls :: "call list"

definition log :: "call \<Rightarrow> gl_context \<Rightarrow> gl_context" where
  "log c gl = gl\<lparr>calls := calls gl @ [c]\<rparr>"

text \<open>The calls made between two contexts.\<close>

definition issued :: "gl_context \<Rightarrow> gl_context \<Rightarrow> call list" where
  "issued gl gl' = drop (length (calls gl)) (calls gl')"

subsection \<open>The engine calls of the constructor\<close>

text \<open>\<^verbatim>\<open>Object2D(parent)\<close>: a node under \<open>parent\<close> with the identity transformation.\<close>

definition object2D_ctor :: "object_handle \<Rightarrow> gl_context \<Rightarrow> object2d \<times> gl_context" where
  "object2D_ctor p gl = (\<lparr>parent = p, transformation = Matrix3_identity\<rparr>, log (Object2D_ctor p) gl)"

text \<open>The two texture members have no initializer: they start without parameters and data.\<close>

definition Texture2D :: texture2d where
  "Texture2D = \<lparr>tex_wrapping = None, magnificationFilter = None, minificationFilter = None,
                 tex_data = None\<rparr>"

definition BufferedTexture :: buffered_texture where
  "BufferedTexture = \<lparr>tex_buffer = None\<rparr>"

definition mesh_ctor :: "primitive \<Rightarrow> nat \<Rightarrow> gl_context \<Rightarrow> mesh \<times> gl_context" where
  "mesh_ctor p n gl =
     (\<lparr>mesh_primitive = p, vertexCount = n, mesh_buffers = [], mesh_attributes = []\<rparr>,
      log (Mesh_ctor p n) gl)"

definition square_ctor :: "gl_context \<Rightarrow> gl_context" where
  "square_ctor gl = log Square_ctor gl"

text \<open>\<^verbatim>\<open>Mesh::addBuffer\<close> creates a new buffer object and returns its handle.\<close>

definition mesh_addBuffer :: "buffer_type \<Rightarrow> mesh \<Rightarrow> gl_context \<Rightarrow> buffer_handle \<times> mesh \<times> gl_context" where
  "mesh_addBuffer ty m gl =
     (let b = length (buffers gl)
      in (b, m\<lparr>mesh_buffers := mesh_buffers m @ [(b, ty)]\<rparr>,
          log (Mesh_addBuffer ty) (gl\<lparr>buffers := buffers gl @ [None]\<rparr>)))"

definition square_positions :: "nat \<Rightarrow> gl_context \<Rightarrow> buffer_data \<times> gl_context" where
  "square_positions i gl = (Square_data i, log (Square_positions i) gl)"

text \<open>\<^verbatim>\<open>Buffer::setData\<close> is the one call that writes the contents of a buffer.\<close>

definition buffer_setData :: "buffer_handle \<Rightarrow> buffer_data \<Rightarrow> usage \<Rightarrow> gl_context \<Rightarrow> gl_context" where
  "buffer_setData b d u gl =
     log (Buffer_setData b d u) (gl\<lparr>buffers := (buffers gl)[b := Some d]\<rparr>)"

definition mesh_bindAttribute :: "attribute \<Rightarrow> buffer_handle \<Rightarrow> mesh \<Rightarrow> gl_context \<Rightarrow> mesh \<times> gl_context" where
  "mesh_bindAttribute a b m gl =
     (m\<lparr>mesh_attributes := mesh_attributes m @ [(a, b)]\<rparr>, log (Mesh_bindAttribute a b) gl)"

definition texture_setWrapping :: "wrapping \<times> wrapping \<Rightarrow> texture2d \<Rightarrow> gl_context \<Rightarrow> texture2d \<times> gl_context" where
  "texture_setWrapping w t gl = (t\<lparr>tex_wrapping := Some w\<rparr>, log (Texture_setWrapping w) gl)"

definition texture_setMagnificationFilter :: "filter_mode \<Rightarrow> texture2d \<Rightarrow> gl_context \<Rightarrow> texture2d \<times> gl_context" where
  "texture_setMagnificationFilter f t gl =
     (t\<lparr>magnificationFilter := Some f\<rparr>, log (Texture_setMagnificationFilter f) gl)"

definition texture_setMinificationFilter :: "filter_mode \<Rightarrow> texture2d \<Rightarrow> gl_context \<Rightarrow> texture2d \<times> gl_context" where
  "texture_setMinificationFilter f t gl =
     (t\<lparr>minificationFilter := Some f\<rparr>, log (Texture_setMinificationFilter f) gl)"

definition texture_setData :: "nat \<Rightarrow> format \<Rightarrow> image_data2d \<Rightarrow> texture2d \<Rightarrow> gl_context \<Rightarrow> texture2d \<times> gl_context" where
  "texture_setData lvl f img t gl =
     (t\<lparr>tex_data := Some (lvl, f, img)\<rparr>, log (Texture_setData lvl f img) gl)"

text \<open>\<^verbatim>\<open>BufferedTexture::setBuffer\<close> attaches a buffer to the texture; it writes no buffer.\<close>

definition bufferedTexture_setBuffer ::
  "components \<Rightarrow> component_type \<Rightarrow> buffer_handle \<Rightarrow> buffered_texture \<Rightarrow> gl_context \<Rightarrow> buffered_texture \<times> gl_context" where
  "bufferedTexture_setBuffer c ty b t gl =
     (t\<lparr>tex_buffer := Some (c, ty, b)\<rparr>, log (BufferedTexture_setBuffer c ty b) gl)"

definition imageData2D_size :: "image_data2d \<Rightarrow> gl_context \<Rightarrow> glsizei vector2 \<times> gl_context" where
  "imageData2D_size img gl = (image_size img, log (ImageData2D_size img) gl)"

text \<open>
  \<^verbatim>\<open>Object2D::scale(vec)\<close> multiplies the transformation of the node by the scaling
  matrix of \<open>vec\<close>.
\<close>

definition object2D_scale ::
  "glfloat vector2 \<Rightarrow> 'a object2d_scheme \<Rightarrow> gl_context \<Rightarrow> 'a object2d_scheme \<times> gl_context" where
  "object2D_scale v this gl =
     (this\<lparr>transformation := Matrix3_mul (Matrix3_scaling v) (transformation this)\<rparr>,
      log (Object2D_scale v) gl)"

subsection \<open>The engine calls of draw\<close>

text \<open>
  The calls of draw act on the graphics context. Setting the uniform stores the matrix.
  Binding a texture makes it the texture of its layer. Drawing the mesh renders the mesh
  with the textures bound and the buffers as they are at that moment.
\<close>

definition shader_use :: "gl_context \<Rightarrow> gl_context" where
  "shader_use gl = log Shader_use gl"

definition camera2D_projectionMatrix :: "camera2d \<Rightarrow> gl_context \<Rightarrow> matrix3 \<times> gl_context" where
  "camera2D_projectionMatrix cam gl = (projectionMatrix cam, log (Camera2D_projectionMatrix cam) gl)"

definition shader_setMatrixUniform :: "matrix3 \<Rightarrow> gl_context \<Rightarrow> gl_context" where
  "shader_setMatrixUniform m gl = log (Shader_setMatrixUniform m) (gl\<lparr>matrixUniform := Some m\<rparr>)"

definition texture_bind :: "layer \<Rightarrow> texture2d \<Rightarrow> gl_context \<Rightarrow> gl_context" where
  "texture_bind l t gl =
     log (Texture_bind l)
       (gl\<lparr>boundTextures := AList.update l (Bound_Texture2D t) (boundTextures gl)\<rparr>)"

definition bufferedTexture_bind :: "layer \<Rightarrow> buffered_texture \<Rightarrow> gl_context \<Rightarrow> gl_context" where
  "bufferedTexture_bind l t gl =
     log (BufferedTexture_bind l)
       (gl\<lparr>boundTextures := AList.update l (Bound_BufferedTexture t) (boundTextures gl)\<rparr>)"

definition mesh_draw :: "mesh \<Rightarrow> gl_context \<Rightarrow> gl_context" where
  "mesh_draw m gl =
     log Mesh_draw
       (gl\<lparr>rendered := rendered gl @
          [\<lparr>rendered_mesh = m, rendered_textures = boundTextures gl,
            rendered_buffers = buffers gl\<rparr>]\<rparr>)"

subsection \<open>Billboard::Billboard\<close>

text \<open>
  The constructor, call by call in the order of the source. The last line is
  \<^verbatim>\<open>scale(Vector2::yScale(GLfloat(image->size()[1])/image->size()[0]))\<close>: the size is
  asked for twice (in either order: the two calls are the same), the second operand is
  converted to \<^verbatim>\<open>GLfloat\<close> by the division. The members \<^verbatim>\<open>texture\<close> and
  \<^verbatim>\<open>colorCorrectionTexture\<close> are default-constructed before the body runs; the
  source does not write these constructors and the log does not hold them.
\<close>

definition Billboard ::
  "(real \<Rightarrow> real) \<Rightarrow> image_data2d \<Rightarrow> buffer_handle \<Rightarrow> object_handle \<Rightarrow> gl_context \<Rightarrow> billboard \<times> gl_context" where
  "Billboard rnd image' colorCorrectionBuffer parent' gl0 =
     (let (node, gl) = object2D_ctor parent' gl0;
          (m, gl) = mesh_ctor TriangleStrip 4 gl;
          gl = square_ctor gl;
          (buffer, m, gl) = mesh_addBuffer NonInterleaved m gl;
          (positions, gl) = square_positions 0 gl;
          gl = buffer_setData buffer positions StaticDraw gl;
          (m, gl) = mesh_bindAttribute Position buffer m gl;
          (t, gl) = texture_setWrapping (ClampToBorder, ClampToBorder) Texture2D gl;
          (t, gl) = texture_setMagnificationFilter LinearInterpolation t gl;
          (t, gl) = texture_setMinificationFilter LinearInterpolation t gl;
          (t, gl) = texture_setData 0 RGBA image' t gl;
          (ct, gl) = bufferedTexture_setBuffer Red Float colorCorrectionBuffer BufferedTexture gl;
          this = \<lparr>parent = parent node, transformation = transformation node,
                  mesh = m, texture = t, colorCorrectionTexture = ct\<rparr>;
          (size1, gl) = imageData2D_size image' gl;
          (size0, gl) = imageData2D_size image' gl
      in object2D_scale
           (yScale (glfloat_div rnd (GLfloat rnd (component size1 1)) (GLfloat rnd (component size0 0))))
           this gl)"

subsection \<open>Billboard::draw\<close>

definition draw :: "matrix3 \<Rightarrow> camera2d \<Rightarrow> billboard \<times> gl_context \<Rightarrow> billboard \<times> gl_context" where
  "draw transformationMatrix camera s =
     (let (this, gl) = s;
          gl = shader_use gl;
          (projection, gl) = camera2D_projectionMatrix camera gl;
          gl = shader_setMatrixUniform (Matrix3_mul projection transformationMatrix) gl;
          gl = texture_bind TextureLayer (texture this) gl;
          gl = bufferedTexture_bind ColorCorrectionTextureLayer (colorCorrectionTexture this) gl;
          gl = mesh_draw (mesh this) gl
      in (this, gl))"

subsection \<open>The usage pattern: construct, then draw every frame\<close>

fun draw_frames :: "(matrix3 \<times> camera2d) list \<Rightarrow> billboard \<times> gl_context \<Rightarrow> billboard \<times> gl_context" where
  "draw_frames [] s = s"
| "draw_frames (f # fs) s = draw_frames fs (draw (fst f) (snd f) s)"

definition construct_then_draw ::
  "(real \<Rightarrow> real) \<Rightarrow> image_data2d \<Rightarrow> buffer_handle \<Rightarrow> object_handle \<Rightarrow> (matrix3 \<times> camera2d) list
     \<Rightarrow> gl_context \<Rightarrow> billboard \<times> gl_context" where
  "construct_then_draw rnd image' colorCorrectionBuffer parent' frames gl =
     draw_frames frames (Billboard rnd image' colorCorrectionBuffer parent' gl)"

text \<open>
  What was rendered between two contexts, and when a rendering is initialized: the color
  texture bound to its layer has data, the color-correction texture bound to its layer
  has a buffer, and the mesh has attributes, each bound to a buffer that holds data.
\<close>

definition drawn :: "gl_context \<Rightarrow> gl_context \<Rightarrow> rendering list" where
  "drawn gl gl' = drop (length (rendered gl)) (rendered gl')"

definition initialized :: "rendering \<Rightarrow> bool" where
  "initialized r =
     ((case map_of (rendered_textures r) TextureLayer of
         Some (Bound_Texture2D t) \<Rightarrow> tex_data t \<noteq> None
       | _ \<Rightarrow> False)
      \<and> (case map_of (rendered_textures r) ColorCorrectionTextureLayer of
           Some (Bound_BufferedTexture t) \<Rightarrow> tex_buffer t \<noteq> None
         | _ \<Rightarrow> False)
      \<and> mesh_attributes (rendered_mesh r) \<noteq> []
      \<and> list_all (\<lambda>ab. snd ab < length (rendered_buffers r)
                          \<and> rendered_buffers r ! snd ab \<noteq> None)
            (mesh_attributes (rendered_mesh r)))"

text \<open>
  The quotient of the last line of the constructor, written with the two components of
  the size of the image: the height (index 1) over the width (index 0).
\<close>

definition ratio :: "(real \<Rightarrow> real) \<Rightarrow> image_data2d \<Rightarrow> glfloat" where
  "ratio rnd img =
     glfloat_div rnd (GLfloat rnd (snd (image_size img))) (GLfloat rnd (fst (image_size img)))"

text \<open>
  The calls that touch the image, the calls that use an argument of draw, and the calls
  that write a given buffer.
\<close>

fun accesses_image :: "call \<Rightarrow> bool" where
  "accesses_image (Texture_setData lvl f img) = True"
| "accesses_image (ImageData2D_size img) = True"
| "accesses_image c = False"

fun uses_draw_argument :: "call \<Rightarrow> bool" where
  "uses_draw_argument (Shader_setMatrixUniform m) = True"
| "uses_draw_argument (Camera2D_projectionMatrix cam) = True"
| "uses_draw_argument c = False"

fun writes_buffer :: "buffer_handle \<Rightarrow> call \<Rightarrow> bool" where
  "writes_buffer b (Buffer_setData b' d u) = (b' = b)"
| "writes_buffer b c = False"

section \<open>The calls each function makes\<close>

lemmas ctor_defs =
  object2D_ctor_def mesh_ctor_def square_ctor_def mesh_addBuffer_def square_positions_def
  buffer_setData_def mesh_bindAttribute_def Texture2D_def BufferedTexture_def texture_setWrapping_def
  texture_setMagnificationFilter_def texture_setMinificationFilter_def texture_setData_def
  bufferedTexture_setBuffer_def imageData2D_size_def object2D_scale_def

lemmas draw_defs =
  shader_use_def camera2D_projectionMatrix_def shader_setMatrixUniform_def texture_bind_def
  bufferedTexture_bind_def mesh_draw_def

lemma Billboard_calls:
  "calls (snd (Billboard rnd img ccb p gl)) = calls gl @
     [Object2D_ctor p, Mesh_ctor TriangleStrip 4, Square_ctor, Mesh_addBuffer NonInterleaved,
      Square_positions 0, Buffer_setData (length (buffers gl)) (Square_data 0) StaticDraw,
      Mesh_bindAttribute Position (length (buffers gl)),
      Texture_setWrapping (ClampToBorder, ClampToBorder),
      Texture_setMagnificationFilter LinearInterpolation,
      Texture_setMinificationFilter LinearInterpolation,
      Texture_setData 0 RGBA img,
      BufferedTexture_setBuffer Red Float ccb,
      ImageData2D_size img, ImageData2D_size img,
      Object2D_scale (Finite 1, ratio rnd img)]"
  by (simp add: Billboard_def ctor_defs log_def Let_def yScale_def component_def ratio_def)

lemma Billboard_buffers:
  "buffers (snd (Billboard rnd img ccb p gl)) = buffers gl @ [Some (Square_data 0)]"
  by (simp add: Billboard_def ctor_defs log_def Let_def)

lemma Billboard_this:
  "fst (Billboard rnd img ccb p gl) =
     \<lparr>parent = p,
      transformation = Matrix3_mul (Matrix3_scaling (Finite 1, ratio rnd img)) Matrix3_identity,
      mesh = \<lparr>mesh_primitive = TriangleStrip, vertexCount = 4,
              mesh_buffers = [(length (buffers gl), NonInterleaved)],
              mesh_attributes = [(Position, length (buffers gl))]\<rparr>,
      texture = \<lparr>tex_wrapping = Some (ClampToBorder, ClampToBorder),
                 magnificationFilter = Some LinearInterpolation,
                 minificationFilter = Some LinearInterpolation,
                 tex_data = Some (0, RGBA, img)\<rparr>,
      colorCorrectionTexture = \<lparr>tex_buffer = Some (Red, Float, ccb)\<rparr>\<rparr>"
  by (simp add: Billboard_def ctor_defs log_def Let_def yScale_def component_def ratio_def)

lemma draw_calls:
  "calls (snd (draw t cam s)) = calls (snd s) @
     [Shader_use, Camera2D_projectionMatrix cam,
      Shader_setMatrixUniform (Matrix3_mul (projectionMatrix cam) t),
      Texture_bind TextureLayer, BufferedTexture_bind ColorCorrectionTextureLayer, Mesh_draw]"
  by (simp add: draw_def draw_defs log_def Let_def split_def)

lemma draw_this: "fst (draw t cam s) = fst s"
  by (simp add: draw_def Let_def split_def)

lemma draw_buffers: "buffers (snd (draw t cam s)) = buffers (snd s)"
  by (simp add: draw_def draw_defs log_def Let_def split_def)

lemma draw_uniform:
  "matrixUniform (snd (draw t cam s)) = Some (Matrix3_mul (projectionMatrix cam) t)"
  by (simp add: draw_def draw_defs log_def Let_def split_def)

lemma Billboard_issued:
  "issued gl (snd (Billboard rnd img ccb p gl)) =
     [Object2D_ctor p, Mesh_ctor TriangleStrip 4, Square_ctor, Mesh_addBuffer NonInterleaved,
      Square_positions 0, Buffer_setData (length (buffers gl)) (Square_data 0) StaticDraw,
      Mesh_bindAttribute Position (length (buffers gl)),
      Texture_setWrapping (ClampToBorder, ClampToBorder),
      Texture_setMagnificationFilter LinearInterpolation,
      Texture_setMinificationFilter LinearInterpolation,
      Texture_setData 0 RGBA img,
      BufferedTexture_setBuffer Red Float ccb,
      ImageData2D_size img, ImageData2D_size img,
      Object2D_scale (Finite 1, ratio rnd img)]"
  by (simp add: issued_def Billboard_calls)

lemma draw_issued:
  "issued (snd s) (snd (draw t cam s)) =
     [Shader_use, Camera2D_projectionMatrix cam,
      Shader_setMatrixUniform (Matrix3_mul (projectionMatrix cam) t),
      Texture_bind TextureLayer, BufferedTexture_bind ColorCorrectionTextureLayer, Mesh_draw]"
  by (simp add: issued_def draw_calls)

lemma draw_frames_this: "fst (draw_frames fs s) = fst s"
  by (induction fs arbitrary: s) (simp_all add: draw_this)

lemma draw_frames_buffers: "buffers (snd (draw_frames fs s)) = buffers (snd s)"
  by (induction fs arbitrary: s) (simp_all add: draw_buffers)

lemma draw_frames_calls:
  "\<exists>rest. calls (snd (draw_frames fs s)) = calls (snd s) @ rest \<and>
          (\<forall>c \<in> set rest. \<not> writes_buffer b c \<and> \<not> accesses_image c)"
proof (induction fs arbitrary: s)
  case Nil
  show ?case by simp
next
  case (Cons f fs)
  from Cons.IH [of "draw (fst f) (snd f) s"] obtain rest where
    r: "calls (snd (draw_frames fs (draw (fst f) (snd f) s))) =
          calls (snd (draw (fst f) (snd f) s)) @ rest"
       "\<forall>c \<in> set rest. \<not> writes_buffer b c \<and> \<not> accesses_image c"
    by blast
  show ?case
    using r by (simp add: draw_calls)
qed

lemma ratio_pos:
  assumes "rnd (real_of_int (sint (fst (image_size img)))) \<noteq> 0"
  shows "ratio rnd img = Finite (rnd (rnd (real_of_int (sint (snd (image_size img))))
                                   / rnd (real_of_int (sint (fst (image_size img))))))"
  using assms by (simp add: ratio_def glfloat_div_def GLfloat_def)

lemma ratio_zero_width:
  assumes "fst (image_size img) = 0" "rnd 0 = 0"
  shows "\<not> is_finite (ratio rnd img)"
  using assms by (simp add: ratio_def glfloat_div_def GLfloat_def)

lemma Billboard_rendered: "rendered (snd (Billboard rnd img ccb p gl)) = rendered gl"
  by (simp add: Billboard_def ctor_defs log_def Let_def)

lemma draw_rendered:
  "rendered (snd (draw t cam s)) = rendered (snd s) @
     [\<lparr>rendered_mesh = mesh (fst s),
       rendered_textures =
         AList.update ColorCorrectionTextureLayer (Bound_BufferedTexture (colorCorrectionTexture (fst s)))
           (AList.update TextureLayer (Bound_Texture2D (texture (fst s))) (boundTextures (snd s))),
       rendered_buffers = buffers (snd s)\<rparr>]"
  by (simp add: draw_def draw_defs log_def Let_def split_def)

lemma draw_rendering_initialized:
  assumes "tex_data (texture (fst s)) \<noteq> None"
    and "tex_buffer (colorCorrectionTexture (fst s)) \<noteq> None"
    and "mesh_attributes (mesh (fst s)) \<noteq> []"
    and "list_all (\<lambda>ab. snd ab < length (buffers (snd s)) \<and> buffers (snd s) ! snd ab \<noteq> None)
           (mesh_attributes (mesh (fst s)))"
  shows "initialized
     \<lparr>rendered_mesh = mesh (fst s),
       rendered_textures =
         AList.update ColorCorrectionTextureLayer (Bound_BufferedTexture (colorCorrectionTexture (fst s)))
           (AList.update TextureLayer (Bound_Texture2D (texture (fst s))) (boundTextures (snd s))),
       rendered_buffers = buffers (snd s)\<rparr>"
  using assms by (simp add: initialized_def update_conv')

lemma draw_frames_rendered:
  assumes "tex_data (texture (fst s)) \<noteq> None"
    and "tex_buffer (colorCorrectionTexture (fst s)) \<noteq> None"
    and "mesh_attributes (mesh (fst s)) \<noteq> []"
    and "list_all (\<lambda>ab. snd ab < length (buffers (snd s)) \<and> buffers (snd s) ! snd ab \<noteq> None)
           (mesh_attributes (mesh (fst s)))"
  shows "\<exists>rest. rendered (snd (draw_frames fs s)) = rendered (snd s) @ rest
            \<and> length rest = length fs \<and> list_all initialized rest"
  using assms
proof (induction fs arbitrary: s)
  case Nil
  show ?case by simp
next
  case (Cons f fs)
  let ?s = "draw (fst f) (snd f) s"
  have "\<exists>rest. rendered (snd (draw_frames fs ?s)) = rendered (snd ?s) @ rest
            \<and> length rest = length fs \<and> list_all initialized rest"
    using Cons.prems by (intro Cons.IH) (simp_all add: draw_this draw_buffers)
  then obtain rest where
    r: "rendered (snd (draw_frames fs ?s)) = rendered (snd ?s) @ rest"
       "length rest = length fs" "list_all initialized rest"
    by blast
  have "initialized
     \<lparr>rendered_mesh = mesh (fst s),
       rendered_textures =
         AList.update ColorCorrectionTextureLayer (Bound_BufferedTexture (colorCorrectionTexture (fst s)))
           (AList.update TextureLayer (Bound_Texture2D (texture (fst s))) (boundTextures (snd s))),
       rendered_buffers = buffers (snd s)\<rparr>"
    using Cons.prems by (rule draw_rendering_initialized)
  with r show ?case
    by (simp add: draw_rendered)
qed

lemma draw_frames_count_draws:
  "count_list (calls (snd (draw_frames fs s))) Mesh_draw
     = count_list (calls (snd s)) Mesh_draw + length fs"
  by (induction fs arbitrary: s) (simp_all add: draw_calls)

lemma construct_then_draw_rendered:
  "length (drawn gl (snd (construct_then_draw rnd img ccb p frames gl))) = length frames
   \<and> list_all initialized (drawn gl (snd (construct_then_draw rnd img ccb p frames gl)))"
proof -
  let ?B = "Billboard rnd img ccb p gl"
  have "\<exists>rest. rendered (snd (draw_frames frames ?B)) = rendered (snd ?B) @ rest
            \<and> length rest = length frames \<and> list_all initialized rest"
    by (rule draw_frames_rendered) (simp_all add: Billboard_this Billboard_buffers nth_append)
  then show ?thesis
    by (auto simp add: construct_then_draw_def drawn_def Billboard_rendered)
qed

lemma construct_then_draw_count:
  "count_list (issued gl (snd (construct_then_draw rnd img ccb p frames gl))) Mesh_draw
     = length frames"
proof -
  let ?B = "Billboard rnd img ccb p gl"
  obtain rest where
    r: "calls (snd (draw_frames frames ?B)) = calls (snd ?B) @ rest"
    using draw_frames_calls [of frames ?B 0] by blast
  have "count_list (calls (snd (draw_frames frames ?B))) Mesh_draw
          = count_list (calls (snd ?B)) Mesh_draw + length frames"
    by (rule draw_frames_count_draws)
  then have "count_list rest Mesh_draw = length frames"
    using r by simp
  moreover have "issued gl (snd (draw_frames frames ?B)) = issued gl (snd ?B) @ rest"
    using r by (simp add: issued_def Billboard_calls)
  ultimately show ?thesis
    by (simp add: construct_then_draw_def Billboard_issued)
qed

lemma construct_then_draw_order:
  assumes "i < length (issued gl (snd (construct_then_draw rnd img ccb p frames gl)))"
    and "issued gl (snd (construct_then_draw rnd img ccb p frames gl)) ! i = Mesh_draw"
  shows "(\<exists>j<i. issued gl (snd (construct_then_draw rnd img ccb p frames gl)) ! j
                  = Texture_setData 0 RGBA img)
         \<and> (\<exists>j<i. issued gl (snd (construct_then_draw rnd img ccb p frames gl)) ! j
                  = Buffer_setData (length (buffers gl)) (Square_data 0) StaticDraw)
         \<and> (\<exists>j<i. issued gl (snd (construct_then_draw rnd img ccb p frames gl)) ! j
                  = Mesh_bindAttribute Position (length (buffers gl)))"
proof -
  let ?B = "Billboard rnd img ccb p gl"
  let ?L = "issued gl (snd (construct_then_draw rnd img ccb p frames gl))"
  obtain rest where
    r: "calls (snd (draw_frames frames ?B)) = calls (snd ?B) @ rest"
    using draw_frames_calls [of frames ?B 0] by blast
  have L: "?L = issued gl (snd ?B) @ rest"
    using r by (simp add: construct_then_draw_def issued_def Billboard_calls)
  have len: "length (issued gl (snd ?B)) = 15"
    by (simp add: Billboard_issued)
  have no_draw: "Mesh_draw \<notin> set (issued gl (snd ?B))"
    by (simp add: Billboard_issued)
  have i: "15 \<le> i"
  proof (rule ccontr)
    assume "\<not> 15 \<le> i"
    then have "i < length (issued gl (snd ?B))" using len by simp
    then have "?L ! i \<in> set (issued gl (snd ?B))"
      using L by (simp add: nth_append)
    with assms(2) no_draw show False by simp
  qed
  have pre: "\<And>j. j < 15 \<Longrightarrow> ?L ! j = issued gl (snd ?B) ! j"
    using L len by (simp add: nth_append)
  have "10 < i \<and> ?L ! 10 = Texture_setData 0 RGBA img"
    using i pre [of 10] by (simp add: Billboard_issued)
  moreover have "5 < i \<and> ?L ! 5 = Buffer_setData (length (buffers gl)) (Square_data 0) StaticDraw"
    using i pre [of 5] by (simp add: Billboard_issued)
  moreover have "6 < i \<and> ?L ! 6 = Mesh_bindAttribute Position (length (buffers gl))"
    using i pre [of 6] by (simp add: Billboard_issued)
  ultimately show ?thesis by blast
qed

section \<open>The claims\<close>

text \<open>
  C1: for an image of positive width \<open>w\<close> and height \<open>h\<close> the constructor scales the
  node by a pure y-scale: the first component of the scaling vector is 1 and the second
  is the float quotient of the height by the width, which is finite as soon as the width
  does not round to zero. This is the transformation of the node after construction, and
  it is the only scaling the constructor applies.
\<close>

theorem C1_vertical_scale:
  assumes "image_size img = (w, h)" and "0 < sint w" and "0 < sint h"
    and "rnd (real_of_int (sint w)) \<noteq> 0"
  shows "transformation (fst (Billboard rnd img ccb p gl)) =
           Matrix3_mul
             (Matrix3_scaling
                (Finite 1, Finite (rnd (rnd (real_of_int (sint h)) / rnd (real_of_int (sint w))))))
             Matrix3_identity
         \<and> (Object2D_scale v \<in> set (issued gl (snd (Billboard rnd img ccb p gl))) \<longleftrightarrow>
              v = (Finite 1, Finite (rnd (rnd (real_of_int (sint h)) / rnd (real_of_int (sint w))))))"
proof -
  have "ratio rnd img = Finite (rnd (rnd (real_of_int (sint h)) / rnd (real_of_int (sint w))))"
    using assms ratio_pos [of rnd img] by simp
  then show ?thesis
    by (simp add: Billboard_this Billboard_issued)
qed

text \<open>An image of 4 by 3 pixels, with exact arithmetic: the vertical scale is 3/4.\<close>

theorem C1_vertical_scale_witness:
  "transformation (fst (Billboard (\<lambda>x. x) \<lparr>image_size = (4, 3), image_pixels = []\<rparr> 0 7
       \<lparr>buffers = [Some (Floats [Finite 1])], matrixUniform = None, boundTextures = [], rendered = [], calls = []\<rparr>)) =
     Matrix3_mul (Matrix3_scaling (Finite 1, Finite (3 / 4))) Matrix3_identity"
  using C1_vertical_scale [of "\<lparr>image_size = (4, 3), image_pixels = []\<rparr>" 4 3 "\<lambda>x. x" 0 7
      "\<lparr>buffers = [Some (Floats [Finite 1])], matrixUniform = None, boundTextures = [], rendered = [], calls = []\<rparr>"]
  by simp


text \<open>
  C3: \<^verbatim>\<open>draw\<close> sets the matrix uniform of the shader to the product of the
  projection matrix of the camera, on the left, and the given transformation matrix, on
  the right. The camera is used by the one call that reads its projection matrix and
  the product by the one call that sets the uniform; the other calls, the buffers and
  the object do not depend on the two arguments.
\<close>

theorem C3_matrix_uniform:
  "matrixUniform (snd (draw t cam s)) = Some (Matrix3_mul (projectionMatrix cam) t)
   \<and> filter uses_draw_argument (issued (snd s) (snd (draw t cam s))) =
       [Camera2D_projectionMatrix cam, Shader_setMatrixUniform (Matrix3_mul (projectionMatrix cam) t)]
   \<and> filter (\<lambda>c. \<not> uses_draw_argument c) (issued (snd s) (snd (draw t cam s))) =
       [Shader_use, Texture_bind TextureLayer, BufferedTexture_bind ColorCorrectionTextureLayer,
        Mesh_draw]
   \<and> buffers (snd (draw t cam s)) = buffers (snd s)
   \<and> fst (draw t cam s) = fst s"
  by (simp add: draw_issued draw_uniform draw_buffers draw_this)

text \<open>
  C4: the color-correction buffer handed to the constructor is an existing buffer of
  the context. After the construction and any number of draw calls its contents are what
  they were, no call that writes a buffer was made on it, and the color-correction
  texture is attached to it.
\<close>

theorem C4_buffer_read_only:
  assumes "ccb < length (buffers gl)"
  shows "buffers (snd (construct_then_draw rnd img ccb p frames gl)) ! ccb = buffers gl ! ccb
         \<and> filter (writes_buffer ccb) (issued gl (snd (construct_then_draw rnd img ccb p frames gl))) = []
         \<and> tex_buffer (colorCorrectionTexture (fst (construct_then_draw rnd img ccb p frames gl)))
             = Some (Red, Float, ccb)"
proof -
  let ?B = "Billboard rnd img ccb p gl"
  obtain rest where
    r: "calls (snd (draw_frames frames ?B)) = calls (snd ?B) @ rest"
       "\<forall>c \<in> set rest. \<not> writes_buffer ccb c \<and> \<not> accesses_image c"
    using draw_frames_calls [of frames ?B ccb] by blast
  have a: "buffers (snd (draw_frames frames ?B)) ! ccb = buffers gl ! ccb"
    using assms by (simp add: draw_frames_buffers Billboard_buffers nth_append)
  have "filter (writes_buffer ccb) rest = []"
    using r(2) by (simp add: filter_empty_conv)
  then have b: "filter (writes_buffer ccb) (issued gl (snd (draw_frames frames ?B))) = []"
    using assms r(1) by (simp add: issued_def Billboard_calls)
  have c: "tex_buffer (colorCorrectionTexture (fst (draw_frames frames ?B))) = Some (Red, Float, ccb)"
    by (simp add: draw_frames_this Billboard_this)
  from a b c show ?thesis
    by (simp add: construct_then_draw_def)
qed

text \<open>A context with one buffer, used as the color-correction buffer, and one frame.\<close>

theorem C4_buffer_read_only_witness:
  "buffers (snd (construct_then_draw (\<lambda>x. x) \<lparr>image_size = (4, 3), image_pixels = []\<rparr> 0 7
       [(Matrix3_identity, \<lparr>projectionMatrix = Matrix3_identity\<rparr>)]
       \<lparr>buffers = [Some (Floats [Finite 1])], matrixUniform = None, boundTextures = [], rendered = [], calls = []\<rparr>)) ! 0
     = Some (Floats [Finite 1])"
  using C4_buffer_read_only [of 0
      "\<lparr>buffers = [Some (Floats [Finite 1])], matrixUniform = None, boundTextures = [], rendered = [], calls = []\<rparr>"
      "\<lambda>x. x" "\<lparr>image_size = (4, 3), image_pixels = []\<rparr>" 7
      "[(Matrix3_identity, \<lparr>projectionMatrix = Matrix3_identity\<rparr>)]"]
  by simp

text \<open>
  C5, as stated, has the constructor read the size of the image exactly once. For an
  image of 4 by 3 pixels the constructor asks for the size twice.
\<close>

theorem C5_image_size_read_once_counterexample:
  "\<not> (count_list
         (issued \<lparr>buffers = [], matrixUniform = None, boundTextures = [], rendered = [], calls = []\<rparr>
            (snd (Billboard id \<lparr>image_size = (4, 3), image_pixels = []\<rparr> 0 7
                    \<lparr>buffers = [], matrixUniform = None, boundTextures = [], rendered = [], calls = []\<rparr>)))
         (ImageData2D_size \<lparr>image_size = (4, 3), image_pixels = []\<rparr>) = 1)"
  by (simp add: Billboard_issued)

text \<open>
  C5, amended: the constructor hands the image to exactly one texture upload and then
  asks for its size exactly twice, once for each operand of the aspect-ratio division;
  these are all its accesses to the image, and \<^verbatim>\<open>draw\<close> makes none.
\<close>

theorem C5_image_accesses:
  "filter accesses_image (issued gl (snd (Billboard rnd img ccb p gl))) =
     [Texture_setData 0 RGBA img, ImageData2D_size img, ImageData2D_size img]
   \<and> filter accesses_image (issued (snd s) (snd (draw t cam s))) = []"
  by (simp add: Billboard_issued draw_issued)

text \<open>
  C6: a construction followed by any number of draws makes one mesh draw call for each
  frame, and each of them renders an initialized mesh with initialized textures: the
  color texture bound to its layer holds the image uploaded by the constructor, the
  color-correction texture has its buffer, and the position attribute of the mesh is
  bound to a buffer that holds the vertex data. In the log every mesh draw call comes
  after the upload of the texture data, after the upload of the vertex data and after
  the binding of the position attribute.
\<close>

theorem C6_initialized_before_draw:
  "count_list (issued gl (snd (construct_then_draw rnd img ccb p frames gl))) Mesh_draw
     = length frames
   \<and> length (drawn gl (snd (construct_then_draw rnd img ccb p frames gl))) = length frames
   \<and> (\<forall>r \<in> set (drawn gl (snd (construct_then_draw rnd img ccb p frames gl))). initialized r)
   \<and> (\<forall>i < length (issued gl (snd (construct_then_draw rnd img ccb p frames gl))).
         issued gl (snd (construct_then_draw rnd img ccb p frames gl)) ! i = Mesh_draw \<longrightarrow>
           (\<exists>j<i. issued gl (snd (construct_then_draw rnd img ccb p frames gl)) ! j
                    = Texture_setData 0 RGBA img)
           \<and> (\<exists>j<i. issued gl (snd (construct_then_draw rnd img ccb p frames gl)) ! j
                    = Buffer_setData (length (buffers gl)) (Square_data 0) StaticDraw)
           \<and> (\<exists>j<i. issued gl (snd (construct_then_draw rnd img ccb p frames gl)) ! j
                    = Mesh_bindAttribute Position (length (buffers gl))))"
proof -
  have "list_all initialized (drawn gl (snd (construct_then_draw rnd img ccb p frames gl)))"
    by (simp add: construct_then_draw_rendered)
  then have "\<forall>r \<in> set (drawn gl (snd (construct_then_draw rnd img ccb p frames gl))). initialized r"
    by (simp add: list_all_iff)
  then show ?thesis
    using construct_then_draw_order [of _ gl rnd img ccb p frames]
    by (simp add: construct_then_draw_count construct_then_draw_rendered)
qed

text \<open>
  One frame after the construction: one rendering, initialized, and the draw call is
  call number 20 of the log, after the upload of the texture data.
\<close>

theorem C6_initialized_before_draw_witness:
  "length (drawn \<lparr>buffers = [], matrixUniform = None, boundTextures = [], rendered = [], calls = []\<rparr>
       (snd (construct_then_draw (\<lambda>x. x) \<lparr>image_size = (4, 3), image_pixels = []\<rparr> 0 7
               [(Matrix3_identity, \<lparr>projectionMatrix = Matrix3_identity\<rparr>)]
               \<lparr>buffers = [], matrixUniform = None, boundTextures = [], rendered = [], calls = []\<rparr>))) = 1
   \<and> initialized
       (hd (drawn \<lparr>buffers = [], matrixUniform = None, boundTextures = [], rendered = [], calls = []\<rparr>
         (snd (construct_then_draw (\<lambda>x. x) \<lparr>image_size = (4, 3), image_pixels = []\<rparr> 0 7
               [(Matrix3_identity, \<lparr>projectionMatrix = Matrix3_identity\<rparr>)]
               \<lparr>buffers = [], matrixUniform = None, boundTextures = [], rendered = [], calls = []\<rparr>))))
   \<and> issued \<lparr>buffers = [], matrixUniform = None, boundTextures = [], rendered = [], calls = []\<rparr>
       (snd (construct_then_draw (\<lambda>x. x) \<lparr>image_size = (4, 3), image_pixels = []\<rparr> 0 7
               [(Matrix3_identity, \<lparr>projectionMatrix = Matrix3_identity\<rparr>)]
               \<lparr>buffers = [], matrixUniform = None, boundTextures = [], rendered = [], calls = []\<rparr>)) ! 20
     = Mesh_draw
   \<and> (\<exists>j<20. issued \<lparr>buffers = [], matrixUniform = None, boundTextures = [], rendered = [], calls = []\<rparr>
       (snd (construct_then_draw (\<lambda>x. x) \<lparr>image_size = (4, 3), image_pixels = []\<rparr> 0 7
               [(Matrix3_identity, \<lparr>projectionMatrix = Matrix3_identity\<rparr>)]
               \<lparr>buffers = [], matrixUniform = None, boundTextures = [], rendered = [], calls = []\<rparr>)) ! j
     = Texture_setData 0 RGBA \<lparr>image_size = (4, 3), image_pixels = []\<rparr>)"
proof -
  let ?gl = "\<lparr>buffers = [], matrixUniform = None, boundTextures = [], rendered = [], calls = []\<rparr>"
  let ?img = "\<lparr>image_size = (4, 3), image_pixels = []\<rparr>"
  let ?fs = "[(Matrix3_identity, \<lparr>projectionMatrix = Matrix3_identity\<rparr>)]"
  let ?D = "drawn ?gl (snd (construct_then_draw (\<lambda>x. x) ?img 0 7 ?fs ?gl))"
  let ?L = "issued ?gl (snd (construct_then_draw (\<lambda>x. x) ?img 0 7 ?fs ?gl))"
  note c = C6_initialized_before_draw [of ?gl "\<lambda>x. x" ?img 0 7 ?fs]
  have len: "length ?D = 1"
    using c by simp
  then have "hd ?D \<in> set ?D"
    by (cases ?D) simp_all
  then have init: "initialized (hd ?D)"
    using c by blast
  have L: "?L = issued ?gl (snd (Billboard (\<lambda>x. x) ?img 0 7 ?gl))
                @ issued (snd (Billboard (\<lambda>x. x) ?img 0 7 ?gl))
                    (snd (draw Matrix3_identity \<lparr>projectionMatrix = Matrix3_identity\<rparr>
                            (Billboard (\<lambda>x. x) ?img 0 7 ?gl)))"
    by (simp add: construct_then_draw_def issued_def draw_calls Billboard_calls)
  have d: "20 < length ?L" "?L ! 20 = Mesh_draw"
    unfolding L Billboard_issued draw_issued by simp_all
  then have "\<exists>j<20. ?L ! j = Texture_setData 0 RGBA ?img"
    using c by blast
  with len init d(2) show ?thesis
    by blast
qed

text \<open>
  C7: for every input the constructor makes the same fifteen calls and \<^verbatim>\<open>draw\<close>
  the same six calls, in the same order; no call is conditional, none is repeated on
  failure, and both functions return a state, never an error.
\<close>

theorem C7_straight_line:
  "issued gl (snd (Billboard rnd img ccb p gl)) =
     [Object2D_ctor p, Mesh_ctor TriangleStrip 4, Square_ctor, Mesh_addBuffer NonInterleaved,
      Square_positions 0, Buffer_setData (length (buffers gl)) (Square_data 0) StaticDraw,
      Mesh_bindAttribute Position (length (buffers gl)),
      Texture_setWrapping (ClampToBorder, ClampToBorder),
      Texture_setMagnificationFilter LinearInterpolation,
      Texture_setMinificationFilter LinearInterpolation,
      Texture_setData 0 RGBA img,
      BufferedTexture_setBuffer Red Float ccb,
      ImageData2D_size img, ImageData2D_size img,
      Object2D_scale (Finite 1, ratio rnd img)]
   \<and> issued (snd s) (snd (draw t cam s)) =
     [Shader_use, Camera2D_projectionMatrix cam,
      Shader_setMatrixUniform (Matrix3_mul (projectionMatrix cam) t),
      Texture_bind TextureLayer, BufferedTexture_bind ColorCorrectionTextureLayer, Mesh_draw]"
  by (simp add: Billboard_issued draw_issued)

text \<open>
  C8: the parent handle is passed unchanged to the constructor of the scene-graph node,
  which is the first call, and it is the parent of the node. The mesh is a triangle strip
  of 4 vertices with one buffer, non-interleaved, that holds the positions of the square
  and is bound to the position attribute.
\<close>

theorem C8_parent_and_mesh:
  "parent (fst (Billboard rnd img ccb p gl)) = p
   \<and> hd (issued gl (snd (Billboard rnd img ccb p gl))) = Object2D_ctor p
   \<and> mesh (fst (Billboard rnd img ccb p gl)) =
       \<lparr>mesh_primitive = TriangleStrip, vertexCount = 4,
        mesh_buffers = [(length (buffers gl), NonInterleaved)],
        mesh_attributes = [(Position, length (buffers gl))]\<rparr>
   \<and> buffers (snd (Billboard rnd img ccb p gl)) = buffers gl @ [Some (Square_data 0)]"
  by (simp add: Billboard_this Billboard_issued Billboard_buffers)

text \<open>
  C9: for an image of width zero the constructor makes all of its fifteen calls, the
  last one the scaling, and the vertical scale factor it passes is an infinity or a NaN.
\<close>

theorem C9_zero_width:
  assumes "fst (image_size img) = 0" and "rnd 0 = 0"
  shows "\<not> is_finite (ratio rnd img)
         \<and> transformation (fst (Billboard rnd img ccb p gl)) =
             Matrix3_mul (Matrix3_scaling (Finite 1, ratio rnd img)) Matrix3_identity
         \<and> length (issued gl (snd (Billboard rnd img ccb p gl))) = 15
         \<and> last (issued gl (snd (Billboard rnd img ccb p gl))) =
             Object2D_scale (Finite 1, ratio rnd img)"
  using assms ratio_zero_width [of img rnd]
  by (simp add: Billboard_this Billboard_issued)

text \<open>An image of width 0 and height 3: the vertical scale factor is plus infinity.\<close>

theorem C9_zero_width_witness:
  "transformation (fst (Billboard (\<lambda>x. x) \<lparr>image_size = (0, 3), image_pixels = []\<rparr> 0 7
       \<lparr>buffers = [], matrixUniform = None, boundTextures = [], rendered = [], calls = []\<rparr>)) =
     Matrix3_mul (Matrix3_scaling (Finite 1, PosInf)) Matrix3_identity
   \<and> \<not> is_finite (ratio (\<lambda>x. x) \<lparr>image_size = (0, 3), image_pixels = []\<rparr>)"
  using C9_zero_width [of "\<lparr>image_size = (0, 3), image_pixels = []\<rparr>" "\<lambda>x. x" 0 7
      "\<lparr>buffers = [], matrixUniform = None, boundTextures = [], rendered = [], calls = []\<rparr>"]
  by (simp add: ratio_def glfloat_div_def GLfloat_def)

end
